theory Spec2Isabelle
  imports Complex_Main "HOL-Library.Sublist" "HOL-Library.Char_ord" "HOL-Library.List_Lexorder"
    "HOL-Library.Product_Lexorder"
begin

section \<open>Numbers\<close>

text \<open>
  The server is JavaScript: every amount, quantity and coordinate is a Number. The model
  takes Numbers as exact values: rationals for amounts and quantities, reals for
  coordinates and distances. A quantity need not be whole: the schemas only give it a
  minimum.

  The schemas round money with the setter \<^verbatim>\<open>v => Math.round(v * 100) / 100\<close>.
  \<^verbatim>\<open>Math.round\<close> is the nearest integer with ties going up, that is
  \<open>\<lfloor>x + 1/2\<rfloor>\<close>.
\<close>

definition Math_round :: "'a::floor_ceiling \<Rightarrow> int" where
  "Math_round x = \<lfloor>x + 1 / 2\<rfloor>"

definition round2 :: "'a::floor_ceiling \<Rightarrow> 'a" where
  "round2 v = of_int (Math_round (v * 100)) / 100"

text \<open>An amount is a whole number of hundredths when rounding leaves it alone.\<close>

definition cents :: "rat \<Rightarrow> bool" where
  "cents v \<longleftrightarrow> round2 v = v"

section \<open>Data model\<close>

type_synonym material_id = nat
type_synonym user_id = nat
type_synonym item_id = nat
type_synonym order_id = nat
type_synonym date = int

text \<open>Material (models/Material.js): the fields the controllers read and write.\<close>

record material =
  m_name :: string
  m_category :: string
  m_unit :: string
  m_price :: rat
  m_quantity :: rat
  m_supplierId :: user_id

text \<open>The authenticated user of a request (\<^verbatim>\<open>req.user\<close>), also a stored User document.\<close>

record user =
  u_id :: user_id
  u_name :: string
  u_role :: string

text \<open>Cart (models/Cart.js). A cart is stored under its owner's id (\<^verbatim>\<open>userId\<close>, unique).\<close>

record cart_item =
  ci_id :: item_id
  ci_materialId :: material_id
  ci_supplierId :: user_id
  ci_quantity :: rat
  ci_price :: rat
  ci_totalPrice :: rat

record cart =
  c_items :: "cart_item list"
  c_totalItems :: rat
  c_totalAmount :: rat

text \<open>Order (models/Order.js).\<close>

record order_item =
  oi_materialId :: material_id
  oi_materialName :: string
  oi_category :: string
  oi_quantity :: rat
  oi_unit :: string
  oi_price :: rat
  oi_totalPrice :: rat
  oi_supplierId :: user_id
  oi_supplierName :: string

record tracking_entry =
  t_status :: string
  t_updatedAt :: date
  t_updatedBy :: user_id
  t_notes :: string
  t_location :: string

record payment =
  p_method :: string
  p_status :: string
  p_amount :: rat

record order =
  o_orderNumber :: string
  o_vendorId :: user_id
  o_vendorName :: string
  o_items :: "order_item list"
  o_totalItems :: rat
  o_subtotal :: rat
  o_deliveryFee :: rat
  o_discount :: rat
  o_taxes :: rat
  o_totalAmount :: rat
  o_status :: string
  o_payment :: payment
  o_delivery_fee :: rat
  o_delivery_actualDate :: "date option"
  o_tracking :: "tracking_entry list"
  o_notes :: string
  o_cancelledAt :: "date option"
  o_cancelledBy :: "user_id option"
  o_estimatedDelivery :: "date option"
  o_actualDelivery :: "date option"

text \<open>
  The database: one collection per model. Orders are never deleted, so the collection is
  the list of the orders in creation order and an order's \<^verbatim>\<open>_id\<close> is its position.
\<close>

record store =
  materials :: "material_id \<rightharpoonup> material"
  users :: "user_id \<rightharpoonup> user"
  orders :: "order list"
  carts :: "user_id \<rightharpoonup> cart"

text \<open>The clock of a request: the local date and \<^verbatim>\<open>Date.now()\<close>.\<close>

record clock =
  getFullYear :: int
  getMonth :: int
  getDate :: int
  now :: int

text \<open>
  Every response that is not a success: the handler's early returns and, for what is
  thrown inside the \<^verbatim>\<open>try\<close>, the \<^verbatim>\<open>catch\<close> block's 500.
\<close>

datatype error =
    EmptyOrder
  | MaterialNotFound material_id
  | InsufficientStock string rat
  | InvalidStatus
  | OrderNotFound
  | NotAuthorized
  | CannotCancel
  | MaterialIdRequired
  | CartMaterialNotFound
  | QuantityExceedsStock rat
  | TotalExceedsStock rat rat
  | ValidQuantityRequired
  | CartNotFound
  | ItemNotFound
  | MaterialNoLongerAvailable
  | AccessForbidden
  | CoordinatesRequired
  | InvalidCoordinates
  | ServerError

fun http_status :: "error \<Rightarrow> nat" where
  "http_status EmptyOrder = 400"
| "http_status (MaterialNotFound _) = 404"
| "http_status (InsufficientStock _ _) = 400"
| "http_status InvalidStatus = 400"
| "http_status OrderNotFound = 404"
| "http_status NotAuthorized = 403"
| "http_status CannotCancel = 400"
| "http_status MaterialIdRequired = 400"
| "http_status CartMaterialNotFound = 404"
| "http_status (QuantityExceedsStock _) = 400"
| "http_status (TotalExceedsStock _ _) = 400"
| "http_status ValidQuantityRequired = 400"
| "http_status CartNotFound = 404"
| "http_status ItemNotFound = 404"
| "http_status MaterialNoLongerAvailable = 404"
| "http_status AccessForbidden = 403"
| "http_status CoordinatesRequired = 400"
| "http_status InvalidCoordinates = 400"
| "http_status ServerError = 500"

text \<open>A handler returns its response and the database it leaves behind.\<close>

type_synonym 'a response = "error + 'a"

section \<open>Cart\<close>

text \<open>\<^verbatim>\<open>Array.prototype.findIndex\<close>, with \<open>None\<close> for \<^verbatim>\<open>-1\<close>.\<close>

fun findIndex :: "('a \<Rightarrow> bool) \<Rightarrow> 'a list \<Rightarrow> nat option" where
  "findIndex P [] = None"
| "findIndex P (x # xs) =
     (if P x then Some 0 else map_option Suc (findIndex P xs))"

text \<open>\<^verbatim>\<open>xs.splice(i, 1)\<close>.\<close>

definition splice1 :: "nat \<Rightarrow> 'a list \<Rightarrow> 'a list" where
  "splice1 i xs = take i xs @ drop (Suc i) xs"

text \<open>The validators of cartItemSchema and cartSchema.\<close>

definition cart_item_valid :: "cart_item \<Rightarrow> bool" where
  "cart_item_valid it \<longleftrightarrow> 1 \<le> ci_quantity it \<and> 0 \<le> ci_price it \<and> 0 \<le> ci_totalPrice it"

definition cart_valid :: "cart \<Rightarrow> bool" where
  "cart_valid c \<longleftrightarrow> list_all cart_item_valid (c_items c) \<and> 0 \<le> c_totalItems c \<and> 0 \<le> c_totalAmount c"

text \<open>Assigning \<^verbatim>\<open>totalAmount\<close> goes through the schema's setter.\<close>

definition set_totalAmount :: "rat \<Rightarrow> cart \<Rightarrow> cart" where
  "set_totalAmount v c = c\<lparr>c_totalAmount := round2 v\<rparr>"

text \<open>\<^verbatim>\<open>cartSchema.pre('save')\<close>.\<close>

definition cart_preSave :: "cart \<Rightarrow> cart" where
  "cart_preSave c =
     (let c1 = c\<lparr>c_totalItems := sum_list (map ci_quantity (c_items c))\<rparr>;
          c2 = set_totalAmount (sum_list (map ci_totalPrice (c_items c1))) c1
      in set_totalAmount (round2 (c_totalAmount c2)) c2)"

text \<open>
  \<^verbatim>\<open>cart.save()\<close>: validation is the first save hook, then the schema's own hook, then
  the write. A validation error is thrown and nothing is written.
\<close>

definition cart_save :: "store \<Rightarrow> user_id \<Rightarrow> cart \<Rightarrow> cart response \<times> store" where
  "cart_save st uid c =
     (if cart_valid c
      then (let c' = cart_preSave c in (Inr c', st\<lparr>carts := (carts st)(uid \<mapsto> c')\<rparr>))
      else (Inl ServerError, st))"

text \<open>The recalculation every handler does before saving.\<close>

definition recalculate :: "cart \<Rightarrow> cart" where
  "recalculate c =
     (let c1 = c\<lparr>c_totalItems := sum_list (map ci_quantity (c_items c))\<rparr>
      in set_totalAmount (sum_list (map ci_totalPrice (c_items c1))) c1)"




text \<open>
  \<^verbatim>\<open>updateCartItem\<close>. The first guard is \<^verbatim>\<open>!quantity || quantity < 0\<close>, and
  \<^verbatim>\<open>!quantity\<close> holds of the number 0.
\<close>

definition updateCartItem :: "store \<Rightarrow> user \<Rightarrow> item_id \<Rightarrow> rat \<Rightarrow> cart response \<times> store" where
  "updateCartItem st u itemId quantity =
     (if quantity = 0 \<or> quantity < 0 then (Inl ValidQuantityRequired, st)
      else
     (case carts st (u_id u) of
        None \<Rightarrow> (Inl CartNotFound, st)
      | Some cart \<Rightarrow>
     (case findIndex (\<lambda>item. ci_id item = itemId) (c_items cart) of
        None \<Rightarrow> (Inl ItemNotFound, st)
      | Some itemIndex \<Rightarrow>
     (let item = c_items cart ! itemIndex in
     (case materials st (ci_materialId item) of
        None \<Rightarrow> (Inl MaterialNoLongerAvailable, st)
      | Some material \<Rightarrow>
          if quantity > m_quantity material
          then (Inl (QuantityExceedsStock (m_quantity material)), st)
          else
            cart_save st (u_id u)
              (recalculate
                (if quantity = 0
                 then cart\<lparr>c_items := splice1 itemIndex (c_items cart)\<rparr>
                 else cart\<lparr>c_items := (c_items cart)
                        [itemIndex := item\<lparr>ci_quantity := quantity,
                                           ci_totalPrice := m_price material * quantity\<rparr>]\<rparr>)))))))"





section \<open>Orders\<close>

subsection \<open>Strings\<close>

text \<open>\<^verbatim>\<open>Number.prototype.toString\<close> of an integer, in decimal.\<close>

definition digit_char :: "nat \<Rightarrow> char" where
  "digit_char d = ''0123456789'' ! d"

function toString :: "int \<Rightarrow> string" where
  "toString n =
     (if n < 0 then CHR ''-'' # toString (- n)
      else if n < 10 then [digit_char (nat n)]
      else toString (n div 10) @ [digit_char (nat (n mod 10))])"
  by pat_completeness auto
termination
  by (relation "measure (\<lambda>n. if n < 0 then Suc (nat (- n)) else nat n)") auto

declare toString.simps [simp del]

text \<open>\<^verbatim>\<open>s.slice(-k)\<close>: the last \<open>k\<close> characters, all of \<open>s\<close> when it is shorter.\<close>

definition slice_last :: "nat \<Rightarrow> string \<Rightarrow> string" where
  "slice_last k s = drop (length s - k) s"

text \<open>\<^verbatim>\<open>s.padStart(k, '0')\<close>.\<close>

definition padStart :: "nat \<Rightarrow> string \<Rightarrow> string" where
  "padStart k s = replicate (k - length s) CHR ''0'' @ s"

text \<open>
  \<^verbatim>\<open>parseInt\<close> on the strings it meets here: the number written by the leading decimal
  digits, \<open>None\<close> (NaN) when there is none.
\<close>

definition is_digit :: "char \<Rightarrow> bool" where
  "is_digit c \<longleftrightarrow> c \<in> set ''0123456789''"

definition digit_value :: "char \<Rightarrow> int" where
  "digit_value c = (case findIndex (\<lambda>d. d = c) ''0123456789'' of Some d \<Rightarrow> int d | None \<Rightarrow> 0)"

definition parseInt :: "string \<Rightarrow> int option" where
  "parseInt s =
     (let ds = takeWhile is_digit s
      in if ds = [] then None else Some (foldl (\<lambda>a c. 10 * a + digit_value c) 0 ds))"

text \<open>The date part shared by both ways of numbering an order.\<close>

definition date_prefix :: "clock \<Rightarrow> string" where
  "date_prefix today =
     (let year = slice_last 2 (toString (getFullYear today));
          month = padStart 2 (toString (getMonth today + 1));
          day = padStart 2 (toString (getDate today))
      in ''IBP'' @ year @ month @ day)"

subsection \<open>The Order model\<close>

text \<open>
  The validators of orderItemSchema, paymentDetailsSchema and orderSchema on the fields
  of the model: required strings, minimums and enums. The delivery address and the
  length limit of the notes are not part of the model; no claim reads them. Every order
  the handlers store passes these validators, so it does not matter here that a later
  \<^verbatim>\<open>save\<close> checks only the required and the modified paths.
\<close>

definition order_item_valid :: "order_item \<Rightarrow> bool" where
  "order_item_valid it \<longleftrightarrow>
     oi_materialName it \<noteq> [] \<and> oi_category it \<noteq> [] \<and> 1 \<le> oi_quantity it \<and>
     oi_unit it \<noteq> [] \<and> 0 \<le> oi_price it \<and> 0 \<le> oi_totalPrice it \<and> oi_supplierName it \<noteq> []"

definition statuses :: "string list" where
  "statuses = [''pending'', ''confirmed'', ''processing'', ''packed'', ''shipped'',
               ''out_for_delivery'', ''delivered'', ''cancelled'', ''returned'']"

definition payment_valid :: "payment \<Rightarrow> bool" where
  "payment_valid p \<longleftrightarrow>
     p_method p \<in> set [''cod'', ''online'', ''upi'', ''card'', ''wallet''] \<and>
     p_status p \<in> set [''pending'', ''paid'', ''failed'', ''refunded'', ''partially_refunded''] \<and>
     0 \<le> p_amount p"

definition order_valid :: "order \<Rightarrow> bool" where
  "order_valid d \<longleftrightarrow>
     o_orderNumber d \<noteq> [] \<and> o_vendorName d \<noteq> [] \<and> list_all order_item_valid (o_items d) \<and>
     1 \<le> o_totalItems d \<and> 0 \<le> o_subtotal d \<and> 0 \<le> o_deliveryFee d \<and> 0 \<le> o_discount d \<and>
     0 \<le> o_taxes d \<and> 0 \<le> o_totalAmount d \<and> o_status d \<in> set statuses \<and>
     payment_valid (o_payment d) \<and> 0 \<le> o_delivery_fee d"

text \<open>
  The query of the save hook: the order whose number starts with the prefix and is the
  greatest in the order of strings.
\<close>

definition findLastOrder :: "string \<Rightarrow> order list \<Rightarrow> order option" where
  "findLastOrder pre os =
     (case filter (\<lambda>d. prefix pre (o_orderNumber d)) os of
        [] \<Rightarrow> None
      | d # ds \<Rightarrow> Some (foldl (\<lambda>a b. if o_orderNumber a < o_orderNumber b then b else a) d ds))"

text \<open>
  \<^verbatim>\<open>orderSchema.pre('save')\<close>. It numbers a new order that has no orderNumber, and
  recomputes totalItems and subtotal. \<open>isNew\<close> is \<^verbatim>\<open>this.isNew\<close>.
\<close>

definition order_preSave :: "clock \<Rightarrow> order list \<Rightarrow> bool \<Rightarrow> order \<Rightarrow> order" where
  "order_preSave today os isNew d =
     (let d1 =
            (if isNew \<and> o_orderNumber d = [] then
               (let sequence =
                      (case findLastOrder (date_prefix today) os of
                         None \<Rightarrow> Some 1
                       | Some lastOrder \<Rightarrow>
                           map_option (\<lambda>lastSequence. lastSequence + 1)
                             (parseInt (slice_last 4 (o_orderNumber lastOrder))))
                in d\<lparr>o_orderNumber := date_prefix today @
                       padStart 4 (case sequence of Some n \<Rightarrow> toString n | None \<Rightarrow> ''NaN'')\<rparr>)
             else d);
          d2 = d1\<lparr>o_totalItems := sum_list (map oi_quantity (o_items d1))\<rparr>;
          d3 = d2\<lparr>o_subtotal := round2 (sum_list (map oi_totalPrice (o_items d2)))\<rparr>
      in d3\<lparr>o_subtotal := round2 (round2 (o_subtotal d3))\<rparr>)"

text \<open>
  \<^verbatim>\<open>Order.create(doc)\<close>: validation, the save hook, then the insert, which the unique
  index on orderNumber refuses for a number already stored. The new order's id is its
  position in the collection.
\<close>

definition Order_create :: "clock \<Rightarrow> store \<Rightarrow> order \<Rightarrow> (order_id \<times> order) response \<times> store" where
  "Order_create today st doc =
     (if \<not> order_valid doc then (Inl ServerError, st)
      else
        (let d = order_preSave today (orders st) True doc
         in if o_orderNumber d \<in> set (map o_orderNumber (orders st)) then (Inl ServerError, st)
            else (Inr (length (orders st), d), st\<lparr>orders := orders st @ [d]\<rparr>)))"

text \<open>\<^verbatim>\<open>order.save()\<close> of an order read from the collection.\<close>

definition order_save :: "clock \<Rightarrow> store \<Rightarrow> order_id \<Rightarrow> order \<Rightarrow> order response \<times> store" where
  "order_save today st oid doc =
     (if \<not> order_valid doc then (Inl ServerError, st)
      else
        (let d = order_preSave today (orders st) False doc
         in (Inr d, st\<lparr>orders := (orders st)[oid := d]\<rparr>)))"

text \<open>\<^verbatim>\<open>Order.findById\<close>.\<close>

definition Order_findById :: "store \<Rightarrow> order_id \<Rightarrow> order option" where
  "Order_findById st oid = (if oid < length (orders st) then Some (orders st ! oid) else None)"

text \<open>
  The instance methods \<^verbatim>\<open>updateStatus\<close> and \<^verbatim>\<open>canBeCancelled\<close> of the model. No
  controller calls them.
\<close>

definition updateStatus ::
  "clock \<Rightarrow> store \<Rightarrow> order_id \<Rightarrow> order \<Rightarrow> string \<Rightarrow> user_id \<Rightarrow> string \<Rightarrow> string
     \<Rightarrow> order response \<times> store" where
  "updateStatus today st oid this newStatus updatedBy notes location =
     (let d1 = this\<lparr>o_status := newStatus\<rparr>;
          d2 = d1\<lparr>o_tracking := o_tracking d1 @
                 [\<lparr>t_status = newStatus, t_updatedAt = now today, t_updatedBy = updatedBy,
                   t_notes = notes, t_location = location\<rparr>]\<rparr>;
          d3 = (if newStatus = ''delivered''
                then d2\<lparr>o_actualDelivery := Some (now today),
                        o_delivery_actualDate := Some (now today)\<rparr>
                else if newStatus = ''cancelled''
                then d2\<lparr>o_cancelledAt := Some (now today), o_cancelledBy := Some updatedBy\<rparr>
                else d2)
      in order_save today st oid d3)"

definition canBeCancelled :: "order \<Rightarrow> bool" where
  "canBeCancelled this \<longleftrightarrow> o_status this \<in> set [''pending'', ''confirmed'', ''processing'']"

subsection \<open>Creating an order\<close>

record order_line =
  l_materialId :: material_id
  l_quantity :: rat

record order_request =
  r_materials :: "order_line list"
  r_notes :: string
  r_paymentMethod :: "string option"
  r_clearCart :: bool

text \<open>
  The body of the validation loop for one line. The material is read with its supplier
  populated; when the supplier's document is gone, \<^verbatim>\<open>material.supplierId._id\<close> throws.
\<close>

definition check_line :: "store \<Rightarrow> order_line \<Rightarrow> error + (rat \<times> order_item)" where
  "check_line st item =
     (case materials st (l_materialId item) of
        None \<Rightarrow> Inl (MaterialNotFound (l_materialId item))
      | Some material \<Rightarrow>
          if l_quantity item > m_quantity material
          then Inl (InsufficientStock (m_name material) (m_quantity material))
          else
            (let itemTotal = m_price material * l_quantity item
             in case users st (m_supplierId material) of
                  None \<Rightarrow> Inl ServerError
                | Some supplier \<Rightarrow>
                    Inr (itemTotal,
                      \<lparr>oi_materialId = l_materialId item, oi_materialName = m_name material,
                        oi_category = m_category material, oi_quantity = l_quantity item,
                        oi_unit = m_unit material, oi_price = m_price material,
                        oi_totalPrice = itemTotal, oi_supplierId = m_supplierId material,
                        oi_supplierName = u_name supplier\<rparr>)))"

text \<open>The loop: it stops at the first line that fails.\<close>

fun validate_lines ::
  "store \<Rightarrow> order_line list \<Rightarrow> rat \<Rightarrow> order_item list \<Rightarrow> error + (rat \<times> order_item list)" where
  "validate_lines st [] totalAmount orderItems = Inr (totalAmount, orderItems)"
| "validate_lines st (item # rest) totalAmount orderItems =
     (case check_line st item of
        Inl e \<Rightarrow> Inl e
      | Inr (itemTotal, orderItem) \<Rightarrow>
          validate_lines st rest (totalAmount + itemTotal) (orderItems @ [orderItem]))"

text \<open>\<^verbatim>\<open>Material.findByIdAndUpdate(id, { $inc: { quantity: n } })\<close>.\<close>

definition inc_quantity :: "material_id \<Rightarrow> rat \<Rightarrow> store \<Rightarrow> store" where
  "inc_quantity mid n st =
     (case materials st mid of
        None \<Rightarrow> st
      | Some material \<Rightarrow>
          st\<lparr>materials := (materials st)(mid \<mapsto> material\<lparr>m_quantity := m_quantity material + n\<rparr>)\<rparr>)"

text \<open>
  The document handed to \<^verbatim>\<open>Order.create\<close>, with the schema's setters applied to the
  amounts and its defaults filled in.
\<close>

definition new_order :: "clock \<Rightarrow> user \<Rightarrow> order_request \<Rightarrow> rat \<Rightarrow> order_item list \<Rightarrow> order" where
  "new_order today u req totalAmount orderItems =
     (let timestamp = slice_last 6 (toString (now today));
          paymentMethod = (case r_paymentMethod req of None \<Rightarrow> ''cash'' | Some pm \<Rightarrow> pm)
      in
      \<lparr>o_orderNumber = date_prefix today @ timestamp,
        o_vendorId = u_id u,
        o_vendorName = u_name u,
        o_items = map (\<lambda>it. it\<lparr>oi_price := round2 (oi_price it),
                                 oi_totalPrice := round2 (oi_totalPrice it)\<rparr>) orderItems,
        o_totalItems = sum_list (map l_quantity (r_materials req)),
        o_subtotal = round2 totalAmount,
        o_deliveryFee = round2 50,
        o_discount = round2 0,
        o_taxes = round2 0,
        o_totalAmount = round2 (totalAmount + 50),
        o_status = ''pending'',
        o_payment = \<lparr>p_method = (if paymentMethod = ''cash'' then ''cod'' else paymentMethod),
                      p_status = ''pending'', p_amount = round2 (totalAmount + 50)\<rparr>,
        o_delivery_fee = round2 50,
        o_delivery_actualDate = None,
        o_tracking = [],
        o_notes = r_notes req,
        o_cancelledAt = None,
        o_cancelledBy = None,
        o_estimatedDelivery = None,
        o_actualDelivery = None\<rparr>)"

text \<open>\<^verbatim>\<open>createOrder\<close>.\<close>

definition createOrder ::
  "clock \<Rightarrow> store \<Rightarrow> user \<Rightarrow> order_request \<Rightarrow> (order_id \<times> order) response \<times> store" where
  "createOrder today st u req =
     (if r_materials req = [] then (Inl EmptyOrder, st)
      else
     (case validate_lines st (r_materials req) 0 [] of
        Inl e \<Rightarrow> (Inl e, st)
      | Inr (totalAmount, orderItems) \<Rightarrow>
     (case Order_create today st (new_order today u req totalAmount orderItems) of
        (Inl e, st1) \<Rightarrow> (Inl ServerError, st1)
      | (Inr (oid, order), st1) \<Rightarrow>
     (let st2 = foldl (\<lambda>s item. inc_quantity (l_materialId item) (- l_quantity item) s)
                  st1 (r_materials req);
          st3 = (if r_clearCart req
                 then (case carts st2 (u_id u) of
                         None \<Rightarrow> st2
                       | Some cart \<Rightarrow>
                           st2\<lparr>carts := (carts st2)(u_id u \<mapsto>
                             set_totalAmount 0 (cart\<lparr>c_items := [], c_totalItems := 0\<rparr>))\<rparr>)
                 else st2)
      in (case Order_findById st3 oid of
            None \<Rightarrow> (Inl ServerError, st3)
          | Some populatedOrder \<Rightarrow> (Inr (oid, populatedOrder), st3))))))"

subsection \<open>Status updates and cancellation\<close>

text \<open>The middleware \<^verbatim>\<open>authorize(...roles)\<close> of the routes.\<close>

definition authorize :: "string list \<Rightarrow> user \<Rightarrow> bool" where
  "authorize roles u \<longleftrightarrow> u_role u \<in> set roles"

record status_request =
  s_status :: string
  s_estimatedDelivery :: "date option"
  s_notes :: string

definition validStatuses :: "string list" where
  "validStatuses = [''pending'', ''confirmed'', ''processing'', ''shipped'', ''delivered'',
                    ''cancelled'']"

text \<open>
  \<^verbatim>\<open>updateOrderStatus\<close>. The update goes through \<^verbatim>\<open>findByIdAndUpdate\<close>: no validation
  and no save hook. \<^verbatim>\<open>trackingNumber\<close> is not a path of orderSchema and is dropped by
  the update.
\<close>

definition updateOrderStatus ::
  "clock \<Rightarrow> store \<Rightarrow> user \<Rightarrow> order_id \<Rightarrow> status_request \<Rightarrow> order response \<times> store" where
  "updateOrderStatus today st u oid req =
     (if s_status req \<notin> set validStatuses then (Inl InvalidStatus, st)
      else
     (case Order_findById st oid of
        None \<Rightarrow> (Inl OrderNotFound, st)
      | Some order \<Rightarrow>
          if \<not> list_ex (\<lambda>m. oi_supplierId m = u_id u) (o_items order)
          then (Inl NotAuthorized, st)
          else
            (let d1 = order\<lparr>o_status := s_status req\<rparr>;
                 d2 = (case s_estimatedDelivery req of
                         None \<Rightarrow> d1
                       | Some e \<Rightarrow> d1\<lparr>o_estimatedDelivery := Some e\<rparr>);
                 d3 = (if s_notes req \<noteq> [] then d2\<lparr>o_notes := s_notes req\<rparr> else d2);
                 updatedOrder = (if s_status req = ''delivered''
                                 then d3\<lparr>o_actualDelivery := Some (now today)\<rparr> else d3)
             in (Inr updatedOrder, st\<lparr>orders := (orders st)[oid := updatedOrder]\<rparr>))))"

text \<open>The route \<^verbatim>\<open>PUT /:id/status\<close>: \<^verbatim>\<open>authorize('supplier')\<close>, then the handler.\<close>

definition put_status ::
  "clock \<Rightarrow> store \<Rightarrow> user \<Rightarrow> order_id \<Rightarrow> status_request \<Rightarrow> order response \<times> store" where
  "put_status today st u oid req =
     (if authorize [''supplier''] u then updateOrderStatus today st u oid req
      else (Inl AccessForbidden, st))"

text \<open>\<^verbatim>\<open>cancelOrder\<close>, the handler of \<^verbatim>\<open>PUT /:id/cancel\<close>.\<close>

definition cancelOrder ::
  "clock \<Rightarrow> store \<Rightarrow> user \<Rightarrow> order_id \<Rightarrow> order response \<times> store" where
  "cancelOrder today st u oid =
     (case Order_findById st oid of
        None \<Rightarrow> (Inl OrderNotFound, st)
      | Some order \<Rightarrow>
     (let isVendor = (u_role u = ''vendor'' \<and> o_vendorId order = u_id u);
          isSupplier = (u_role u = ''supplier'' \<and>
                        list_ex (\<lambda>m. oi_supplierId m = u_id u) (o_items order))
      in
      if \<not> isVendor \<and> \<not> isSupplier then (Inl NotAuthorized, st)
      else if o_status order \<in> set [''shipped'', ''delivered''] then (Inl CannotCancel, st)
      else
     (let st1 = foldl (\<lambda>s material. inc_quantity (oi_materialId material) (oi_quantity material) s)
                  st (o_items order)
      in (case order_save today st1 oid (order\<lparr>o_status := ''cancelled''\<rparr>) of
            (Inl e, st2) \<Rightarrow> (Inl ServerError, st2)
          | (Inr saved, st2) \<Rightarrow> (Inr saved, st2)))))"

section \<open>Supplier discovery\<close>


text \<open>
  \<^verbatim>\<open>calculateDistanceBetweenPoints\<close> of the location controller; \<open>haversine_a\<close> is its
  local \<^verbatim>\<open>a\<close>. The client's \<^verbatim>\<open>calculateDistance\<close> and the loop body of the
  suppliers route's \<^verbatim>\<open>getNearbySuppliers\<close> are the same lines.
\<close>

definition haversine_a :: "real \<Rightarrow> real \<Rightarrow> real \<Rightarrow> real \<Rightarrow> real" where
  "haversine_a lat1 lng1 lat2 lng2 =
     (let dLat = (lat2 - lat1) * pi / 180;
          dLng = (lng2 - lng1) * pi / 180
      in sin (dLat / 2) * sin (dLat / 2) +
         cos (lat1 * pi / 180) * cos (lat2 * pi / 180) * sin (dLng / 2) * sin (dLng / 2))"



text \<open>
  The User documents a geo query reads, and the query string of a request. A parameter
  of the query string is absent, or does not parse as a number, or parses to a number.
\<close>

record location =
  latitude :: real
  longitude :: real


datatype param = Absent | Unparsable | Num real









section \<open>What the claims speak of\<close>



text \<open>What the restore loop of a cancellation adds to one material.\<close>

definition restored :: "order_item list \<Rightarrow> material_id \<Rightarrow> rat" where
  "restored items mid = sum_list (map oi_quantity (filter (\<lambda>it. oi_materialId it = mid) items))"




section \<open>Examples\<close>

subsection \<open>Example carts\<close>

definition ex_user :: user where
  "ex_user = \<lparr>u_id = 1, u_name = ''Asha'', u_role = ''vendor''\<rparr>"

definition ex_salt :: material where
  "ex_salt = \<lparr>m_name = ''Salt'', m_category = ''Spices'', m_unit = ''kg'',
               m_price = 1 / 100, m_quantity = 10, m_supplierId = 2\<rparr>"




definition ex_line :: cart_item where
  "ex_line = \<lparr>ci_id = 0, ci_materialId = 7, ci_supplierId = 2, ci_quantity = 3,
               ci_price = 1 / 100, ci_totalPrice = 3 / 100\<rparr>"

definition ex_filled_cart :: cart where
  "ex_filled_cart = \<lparr>c_items = [ex_line], c_totalItems = 3, c_totalAmount = 3 / 100\<rparr>"

definition ex_filled_store :: store where
  "ex_filled_store = \<lparr>materials = [7 \<mapsto> ex_salt], users = Map.empty, orders = [],
                       carts = [1 \<mapsto> ex_filled_cart]\<rparr>"

subsection \<open>Example orders\<close>

definition ex_supplier :: user where
  "ex_supplier = \<lparr>u_id = 2, u_name = ''Ravi'', u_role = ''supplier''\<rparr>"

definition ex_tomato :: material where
  "ex_tomato = \<lparr>m_name = ''Fresh Tomatoes'', m_category = ''Vegetables'', m_unit = ''kg'',
                 m_price = 40, m_quantity = 100, m_supplierId = 2\<rparr>"

definition ex_pepper :: material where
  "ex_pepper = \<lparr>m_name = ''Pepper'', m_category = ''Spices'', m_unit = ''kg'',
                 m_price = 1 / 100, m_quantity = 10, m_supplierId = 2\<rparr>"

definition ex_store :: store where
  "ex_store = \<lparr>materials = [6 \<mapsto> ex_pepper, 7 \<mapsto> ex_tomato, 8 \<mapsto> ex_salt],
                users = [1 \<mapsto> ex_user, 2 \<mapsto> ex_supplier], orders = [], carts = Map.empty\<rparr>"

definition ex_clock :: clock where
  "ex_clock = \<lparr>getFullYear = 2026, getMonth = 10, getDate = 3, now = 1793700123456\<rparr>"

definition ex_request :: "order_line list \<Rightarrow> order_request" where
  "ex_request ls = \<lparr>r_materials = ls, r_notes = [], r_paymentMethod = None, r_clearCart = False\<rparr>"

definition ex_order :: order where
  "ex_order =
     \<lparr>o_orderNumber = ''IBP261103123456'', o_vendorId = 1, o_vendorName = ''Asha'',
       o_items = [\<lparr>oi_materialId = 7, oi_materialName = ''Fresh Tomatoes'',
                    oi_category = ''Vegetables'', oi_quantity = 20, oi_unit = ''kg'',
                    oi_price = 40, oi_totalPrice = 800, oi_supplierId = 2,
                    oi_supplierName = ''Ravi''\<rparr>],
       o_totalItems = 20, o_subtotal = 800, o_deliveryFee = 50, o_discount = 0, o_taxes = 0,
       o_totalAmount = 850, o_status = ''pending'',
       o_payment = \<lparr>p_method = ''cod'', p_status = ''pending'', p_amount = 850\<rparr>,
       o_delivery_fee = 50, o_delivery_actualDate = None, o_tracking = [], o_notes = [],
       o_cancelledAt = None, o_cancelledBy = None, o_estimatedDelivery = None,
       o_actualDelivery = None\<rparr>"



definition ex_placed_store :: store where
  "ex_placed_store =
     \<lparr>materials = [6 \<mapsto> ex_pepper, 7 \<mapsto> ex_tomato\<lparr>m_quantity := 80\<rparr>, 8 \<mapsto> ex_salt],
       users = [1 \<mapsto> ex_user, 2 \<mapsto> ex_supplier], orders = [ex_order], carts = Map.empty\<rparr>"

definition ex_cancelled_order :: order where
  "ex_cancelled_order = ex_order\<lparr>o_status := ''cancelled''\<rparr>"

definition ex_confirm :: status_request where
  "ex_confirm = \<lparr>s_status = ''confirmed'', s_estimatedDelivery = None, s_notes = []\<rparr>"

definition ex_delivered_store :: store where
  "ex_delivered_store = ex_placed_store\<lparr>orders := [ex_order\<lparr>o_status := ''delivered''\<rparr>]\<rparr>"

definition ex_to_cancelled :: status_request where
  "ex_to_cancelled = \<lparr>s_status = ''cancelled'', s_estimatedDelivery = None, s_notes = []\<rparr>"







section \<open>Cart totals\<close>

subsection \<open>Rounding\<close>

lemma Math_round_of_int: "Math_round (of_int k :: 'a::floor_ceiling) = k"
  unfolding Math_round_def by (rule floor_unique) simp_all

lemma round2_idem: "round2 (round2 v) = round2 (v :: 'a::floor_ceiling)"
  by (simp add: round2_def Math_round_of_int)





subsection \<open>Totals after a cart mutation\<close>

lemma cart_preSave_items: "c_items (cart_preSave c) = c_items c"
  by (simp add: cart_preSave_def set_totalAmount_def Let_def)












subsection \<open>Updating a line to quantity 0\<close>

lemma updateCartItem_zero:
  "updateCartItem st u itemId 0 = (Inl ValidQuantityRequired, st)"
  by (simp add: updateCartItem_def)

text \<open>
  Claim C6 at the input where the code departs from it: a cart holding line 0 with
  quantity 3, and the request to set line 0 to quantity 0. The request is answered 400
  and the line stays in the stored cart.
\<close>

theorem updateCartItem_zero_rejected:
  "fst (updateCartItem ex_filled_store ex_user 0 0) = Inl ValidQuantityRequired
   \<and> http_status ValidQuantityRequired = 400
   \<and> carts (snd (updateCartItem ex_filled_store ex_user 0 0)) 1 = Some ex_filled_cart
   \<and> c_items ex_filled_cart = [ex_line]"
  by (simp add: updateCartItem_zero ex_filled_store_def ex_filled_cart_def)

text \<open>The rest of the claim holds: a positive quantity within stock is stored as given.\<close>

lemma updateCartItem_sets_quantity:
  assumes "carts st (u_id u) = Some cart"
    and "findIndex (\<lambda>item. ci_id item = itemId) (c_items cart) = Some i"
    and "materials st (ci_materialId (c_items cart ! i)) = Some material"
    and "0 < quantity" and "quantity \<le> m_quantity material"
    and "fst (updateCartItem st u itemId quantity) = Inr c'"
  shows "c_items c' = (c_items cart)
           [i := (c_items cart ! i)\<lparr>ci_quantity := quantity,
                                     ci_totalPrice := m_price material * quantity\<rparr>]"
  using assms
  by (auto simp: updateCartItem_def Let_def cart_save_def cart_preSave_items recalculate_def
        set_totalAmount_def split: if_splits)

section \<open>Order creation: rejected requests\<close>








section \<open>Order creation: what a created order holds\<close>







lemma orders_inc_quantity: "orders (inc_quantity mid n st) = orders st"
  by (simp add: inc_quantity_def split: option.splits)

lemma orders_foldl_dec:
  "orders (foldl (\<lambda>s item. inc_quantity (l_materialId item) (- l_quantity item) s) st ls) = orders st"
  by (induction ls arbitrary: st) (simp_all add: orders_inc_quantity)

lemma order_preSave_number:
  "o_orderNumber d \<noteq> [] \<Longrightarrow> o_orderNumber (order_preSave today os isNew d) = o_orderNumber d"
  by (simp add: order_preSave_def Let_def)

lemma order_preSave_fields:
  "o_orderNumber d \<noteq> [] \<Longrightarrow>
     order_preSave today os isNew d =
       d\<lparr>o_totalItems := sum_list (map oi_quantity (o_items d)),
         o_subtotal := round2 (sum_list (map oi_totalPrice (o_items d)))\<rparr>"
  by (simp add: order_preSave_def Let_def round2_idem)

lemma createOrder_success:
  assumes "fst (createOrder today st u req) = Inr (oid, ord)"
  shows "\<exists>total its.
           validate_lines st (r_materials req) 0 [] = Inr (total, its) \<and>
           order_valid (new_order today u req total its) \<and>
           ord = order_preSave today (orders st) True (new_order today u req total its) \<and>
           o_orderNumber ord \<notin> set (map o_orderNumber (orders st)) \<and>
           oid = length (orders st) \<and>
           orders (snd (createOrder today st u req)) = orders st @ [ord]"
  using assms
  unfolding createOrder_def Order_create_def Order_findById_def Let_def
  by (auto simp: orders_foldl_dec nth_append split: if_splits sum.splits option.splits prod.splits)

lemma new_order_number_nonempty: "o_orderNumber (new_order today u req amount its) \<noteq> []"
  by (simp add: new_order_def date_prefix_def Let_def)

lemma cents_round2: "cents v \<Longrightarrow> round2 v = v"
  by (simp add: cents_def)


subsection \<open>Evaluating the examples\<close>

lemma Math_round_numeral: "Math_round (numeral k :: rat) = numeral k"
  using Math_round_of_int [of "numeral k", where 'a = rat] by simp

lemma Math_round_0: "Math_round (0 :: rat) = 0"
  using Math_round_of_int [of 0, where 'a = rat] by simp

lemma Math_round_1: "Math_round (1 :: rat) = 1"
  using Math_round_of_int [of 1, where 'a = rat] by simp

lemma Math_round_numeral_div:
  "Math_round (numeral a / numeral b :: rat) = (2 * numeral a + numeral b) div (2 * numeral b)"
proof -
  have "(numeral a / numeral b + 1 / 2 :: rat)
      = of_int (2 * numeral a + numeral b) / of_int (2 * numeral b)"
    by (simp add: field_simps)
  then show ?thesis
    unfolding Math_round_def by (simp only: floor_divide_of_int_eq)
qed

lemmas round_eval =
  round2_def Math_round_numeral Math_round_0 Math_round_1 Math_round_numeral_div

lemmas order_eval =
  createOrder_def check_line_def Order_create_def order_save_def order_valid_def
  order_item_valid_def payment_valid_def statuses_def order_preSave_def new_order_def
  date_prefix_def slice_last_def padStart_def toString.simps digit_char_def inc_quantity_def
  Order_findById_def Let_def

lemmas ex_eval =
  ex_store_def ex_clock_def ex_user_def ex_supplier_def ex_tomato_def ex_salt_def
  ex_pepper_def ex_request_def

lemma ex_order_created:
  "fst (createOrder ex_clock ex_store ex_user (ex_request [\<lparr>l_materialId = 7, l_quantity = 20\<rparr>]))
     = Inr (0, ex_order)"
  by (simp add: order_eval round_eval ex_eval ex_order_def)





section \<open>Order creation: the order number\<close>

lemma is_digit_digit_char: "d < 10 \<Longrightarrow> is_digit (digit_char d)"
proof -
  assume "d < 10"
  then have "d \<in> {0, 1, 2, 3, 4, 5, 6, 7, 8, 9}" by auto
  then show ?thesis by (auto simp: is_digit_def digit_char_def)
qed

lemma toString_digits: "0 \<le> n \<Longrightarrow> list_all is_digit (toString n)"
proof (induction n rule: toString.induct)
  case (1 n)
  show ?case
  proof (cases "n < 10")
    case True
    with "1.prems" show ?thesis
      by (subst toString.simps) (simp add: is_digit_digit_char)
  next
    case False
    with "1.prems" "1.IH"(2) have "list_all is_digit (toString (n div 10))" by simp
    moreover have "nat (n mod 10) < 10" by simp
    ultimately show ?thesis using False "1.prems"
      by (subst toString.simps) (simp add: is_digit_digit_char)
  qed
qed

lemma toString_bound: "0 \<le> n \<Longrightarrow> n < 10 ^ length (toString n)"
proof (induction n rule: toString.induct)
  case (1 n)
  show ?case
  proof (cases "n < 10")
    case True
    with "1.prems" show ?thesis
      by (subst toString.simps) simp
  next
    case False
    with "1.prems" "1.IH"(2) have "n div 10 < 10 ^ length (toString (n div 10))" by simp
    then have "n < 10 * 10 ^ length (toString (n div 10))" by simp
    with False "1.prems" show ?thesis
      by (subst toString.simps) simp
  qed
qed

lemma length_toString_two: "0 \<le> n \<Longrightarrow> n < 100 \<Longrightarrow> length (padStart 2 (toString n)) = 2"
  by (subst toString.simps, subst toString.simps) (simp add: padStart_def)

lemma length_toString_ge:
  assumes "10 ^ k \<le> n"
  shows "k < length (toString n)"
proof -
  have "(0::int) \<le> 10 ^ k" by simp
  with assms have "0 \<le> n" by linarith
  from toString_bound [OF this] assms have "(10::int) ^ k < 10 ^ length (toString n)" by linarith
  then show ?thesis by simp
qed

lemma list_all_drop: "list_all P xs \<Longrightarrow> list_all P (drop k xs)"
  by (auto simp: list_all_iff dest: in_set_dropD)

lemma order_number_format:
  assumes "10 \<le> getFullYear today" "0 \<le> getMonth today" "getMonth today \<le> 11"
    "1 \<le> getDate today" "getDate today \<le> 31" "100000 \<le> now today"
  shows "length (date_prefix today @ slice_last 6 (toString (now today))) = 15
       \<and> list_all is_digit (drop 3 (date_prefix today @ slice_last 6 (toString (now today))))"
proof -
  have y: "1 < length (toString (getFullYear today))"
    using length_toString_ge [of 1 "getFullYear today"] assms(1) by simp
  have t: "5 < length (toString (now today))"
    using length_toString_ge [of 5 "now today"] assms(6) by simp
  have m: "length (padStart 2 (toString (getMonth today + 1))) = 2"
    using assms by (intro length_toString_two) simp_all
  have d: "length (padStart 2 (toString (getDate today))) = 2"
    using assms by (intro length_toString_two) simp_all
  have dy: "list_all is_digit (toString (getFullYear today))"
    and dm: "list_all is_digit (toString (getMonth today + 1))"
    and dd: "list_all is_digit (toString (getDate today))"
    and dt: "list_all is_digit (toString (now today))"
    using assms by (simp_all add: toString_digits)
  have z: "is_digit CHR ''0''" by (simp add: is_digit_def)
  have len: "length (date_prefix today @ slice_last 6 (toString (now today))) = 15"
    using y t m d by (simp add: date_prefix_def Let_def slice_last_def)
  have "list_all is_digit (slice_last 2 (toString (getFullYear today)) @
      padStart 2 (toString (getMonth today + 1)) @ padStart 2 (toString (getDate today)) @
      slice_last 6 (toString (now today)))"
  proof -
    have "list_all is_digit (slice_last 2 (toString (getFullYear today)))"
      and "list_all is_digit (slice_last 6 (toString (now today)))"
      using dy dt by (simp_all add: slice_last_def list_all_drop)
    moreover have "list_all is_digit (padStart 2 (toString (getMonth today + 1)))"
      and "list_all is_digit (padStart 2 (toString (getDate today)))"
      using dm dd z by (auto simp: padStart_def list_all_iff)
    ultimately show ?thesis by simp
  qed
  then have "list_all is_digit (drop 3 (date_prefix today @ slice_last 6 (toString (now today))))"
    by (simp add: date_prefix_def Let_def)
  with len show ?thesis ..
qed

text \<open>
  Claim C4, as the code has it. The orderNumber of a created order is IBP, the last two
  digits of the year, the month and the day on two digits each, and the last six
  characters of the millisecond clock \<^verbatim>\<open>Date.now()\<close>: fifteen characters, all digits
  after IBP, for a date of the common era and a clock of six digits or more. The number
  comes from the handler; the save hook's daily sequence is for an order without a
  number and is not used. The number differs from the number of every order already
  stored, so numbers that were distinct stay distinct.
\<close>

theorem createOrder_orderNumber:
  assumes "fst (createOrder today st u req) = Inr (oid, ord)"
  shows "o_orderNumber ord =
           ''IBP'' @ slice_last 2 (toString (getFullYear today))
             @ padStart 2 (toString (getMonth today + 1))
             @ padStart 2 (toString (getDate today))
             @ slice_last 6 (toString (now today))
       \<and> (10 \<le> getFullYear today \<and> 0 \<le> getMonth today \<and> getMonth today \<le> 11
            \<and> 1 \<le> getDate today \<and> getDate today \<le> 31 \<and> 100000 \<le> now today
          \<longrightarrow> length (o_orderNumber ord) = 15 \<and> list_all is_digit (drop 3 (o_orderNumber ord)))
       \<and> o_orderNumber ord \<notin> set (map o_orderNumber (orders st))
       \<and> orders (snd (createOrder today st u req)) = orders st @ [ord]
       \<and> (distinct (map o_orderNumber (orders st))
          \<longrightarrow> distinct (map o_orderNumber (orders (snd (createOrder today st u req)))))"
proof -
  from createOrder_success [OF assms] obtain amount its where
    ord: "ord = order_preSave today (orders st) True (new_order today u req amount its)"
    and fresh: "o_orderNumber ord \<notin> set (map o_orderNumber (orders st))"
    and stored: "orders (snd (createOrder today st u req)) = orders st @ [ord]"
    by blast
  have "o_orderNumber ord = o_orderNumber (new_order today u req amount its)"
    unfolding ord by (rule order_preSave_number) (rule new_order_number_nonempty)
  then have num: "o_orderNumber ord = date_prefix today @ slice_last 6 (toString (now today))"
    by (simp add: new_order_def Let_def)
  then have shape: "o_orderNumber ord =
           ''IBP'' @ slice_last 2 (toString (getFullYear today))
             @ padStart 2 (toString (getMonth today + 1))
             @ padStart 2 (toString (getDate today))
             @ slice_last 6 (toString (now today))"
    by (simp add: date_prefix_def Let_def)
  have form: "length (o_orderNumber ord) = 15 \<and> list_all is_digit (drop 3 (o_orderNumber ord))"
    if "10 \<le> getFullYear today \<and> 0 \<le> getMonth today \<and> getMonth today \<le> 11
            \<and> 1 \<le> getDate today \<and> getDate today \<le> 31 \<and> 100000 \<le> now today"
    unfolding num using that by (intro order_number_format) simp_all
  have "distinct (map o_orderNumber (orders (snd (createOrder today st u req))))"
    if "distinct (map o_orderNumber (orders st))"
    using that fresh by (simp add: stored)
  with shape form fresh stored show ?thesis by blast
qed

theorem createOrder_orderNumber_witness:
  "fst (createOrder ex_clock ex_store ex_user (ex_request [\<lparr>l_materialId = 7, l_quantity = 20\<rparr>]))
     = Inr (0, ex_order)
   \<and> (10 \<le> getFullYear ex_clock \<and> 0 \<le> getMonth ex_clock \<and> getMonth ex_clock \<le> 11
        \<and> 1 \<le> getDate ex_clock \<and> getDate ex_clock \<le> 31 \<and> 100000 \<le> now ex_clock)
   \<and> distinct (map o_orderNumber (orders ex_store))
   \<and> o_orderNumber ex_order = ''IBP261103123456''
   \<and> length (o_orderNumber ex_order) = 15
   \<and> list_all is_digit (drop 3 (o_orderNumber ex_order))
   \<and> distinct (map o_orderNumber (orders (snd (createOrder ex_clock ex_store ex_user
         (ex_request [\<lparr>l_materialId = 7, l_quantity = 20\<rparr>])))))"
proof -
  note run = ex_order_created
  have date: "10 \<le> getFullYear ex_clock \<and> 0 \<le> getMonth ex_clock \<and> getMonth ex_clock \<le> 11
        \<and> 1 \<le> getDate ex_clock \<and> getDate ex_clock \<le> 31 \<and> 100000 \<le> now ex_clock"
    by (simp add: ex_clock_def)
  have dist: "distinct (map o_orderNumber (orders ex_store))"
    by (simp add: ex_store_def)
  have num: "o_orderNumber ex_order = ''IBP261103123456''"
    by (simp add: ex_order_def)
  from createOrder_orderNumber [OF run] date dist
  have len: "length (o_orderNumber ex_order) = 15"
    and digits: "list_all is_digit (drop 3 (o_orderNumber ex_order))"
    and after: "distinct (map o_orderNumber (orders (snd (createOrder ex_clock ex_store ex_user
         (ex_request [\<lparr>l_materialId = 7, l_quantity = 20\<rparr>])))))"
    by blast+
  from run date dist num len digits after show ?thesis
    by (intro conjI) blast+
qed

text \<open>
  The first order of a day is not numbered 0001: on 3 November 2026, with no order
  stored and the clock at 1793700123456, the number is IBP261103123456.
\<close>

theorem createOrder_orderNumber_counterexample:
  "fst (createOrder ex_clock ex_store ex_user (ex_request [\<lparr>l_materialId = 7, l_quantity = 20\<rparr>]))
     = Inr (0, ex_order)
   \<and> orders ex_store = []
   \<and> o_orderNumber ex_order = ''IBP261103123456''
   \<and> o_orderNumber ex_order \<noteq> date_prefix ex_clock @ padStart 4 (toString 1)
   \<and> date_prefix ex_clock @ padStart 4 (toString 1) = ''IBP2611030001''"
  by (simp add: ex_order_created)
    (simp add: ex_order_def ex_eval date_prefix_def slice_last_def padStart_def
      toString.simps digit_char_def eval_nat_numeral)

text \<open>A number that is already stored is refused by the unique index.\<close>

lemma createOrder_duplicate_number:
  assumes "r_materials req \<noteq> []"
    and "validate_lines st (r_materials req) 0 [] = Inr (amount, its)"
    and "date_prefix today @ slice_last 6 (toString (now today)) \<in> set (map o_orderNumber (orders st))"
  shows "createOrder today st u req = (Inl ServerError, st)"
proof -
  have "o_orderNumber (order_preSave today (orders st) True (new_order today u req amount its))
      = date_prefix today @ slice_last 6 (toString (now today))"
    using order_preSave_number [OF new_order_number_nonempty]
    by (simp add: new_order_def Let_def)
  with assms show ?thesis
    by (simp add: createOrder_def Order_create_def Let_def)
qed

section \<open>Cancellation\<close>

lemmas status_eval =
  cancelOrder_def updateOrderStatus_def put_status_def authorize_def validStatuses_def
  canBeCancelled_def

lemma ex_order_placed:
  "orders (snd (createOrder ex_clock ex_store ex_user
      (ex_request [\<lparr>l_materialId = 7, l_quantity = 20\<rparr>]))) = orders ex_placed_store
   \<and> materials (snd (createOrder ex_clock ex_store ex_user
      (ex_request [\<lparr>l_materialId = 7, l_quantity = 20\<rparr>]))) = materials ex_placed_store"
  by (simp add: order_eval round_eval ex_eval ex_order_def ex_placed_store_def fun_eq_iff)

lemma ex_order_cancelled:
  "fst (cancelOrder ex_clock ex_placed_store ex_user 0) = Inr ex_cancelled_order"
  by (simp add: status_eval order_eval round_eval ex_eval ex_order_def ex_placed_store_def
      ex_cancelled_order_def)

lemma ex_cancel_restores:
  "materials (snd (cancelOrder ex_clock ex_placed_store ex_user 0)) 7 = Some ex_tomato
   \<and> orders (snd (cancelOrder ex_clock ex_placed_store ex_user 0)) = [ex_cancelled_order]"
  by (simp add: status_eval order_eval round_eval ex_eval ex_order_def ex_placed_store_def
      ex_cancelled_order_def)

lemma ex_cancel_again:
  "fst (cancelOrder ex_clock (snd (cancelOrder ex_clock ex_placed_store ex_user 0)) ex_user 0)
     = Inr ex_cancelled_order
   \<and> materials (snd (cancelOrder ex_clock
         (snd (cancelOrder ex_clock ex_placed_store ex_user 0)) ex_user 0)) 7
       = Some (ex_tomato\<lparr>m_quantity := 120\<rparr>)"
  by (simp add: status_eval order_eval round_eval ex_eval ex_order_def ex_placed_store_def
      ex_cancelled_order_def)

lemma ex_confirmed:
  "fst (put_status ex_clock ex_placed_store ex_supplier 0 ex_confirm)
     = Inr (ex_order\<lparr>o_status := ''confirmed''\<rparr>)"
  by (simp add: status_eval order_eval ex_eval ex_order_def ex_placed_store_def ex_confirm_def)

lemma materials_inc_quantity:
  "materials (inc_quantity mid' n st) mid =
     (if mid = mid' then map_option (\<lambda>m. m\<lparr>m_quantity := m_quantity m + n\<rparr>) (materials st mid)
      else materials st mid)"
  by (simp add: inc_quantity_def split: option.splits)

lemma materials_restore_loop:
  "materials (foldl (\<lambda>s material. inc_quantity (oi_materialId material) (oi_quantity material) s)
       st items) mid
     = map_option (\<lambda>m. m\<lparr>m_quantity := m_quantity m + restored items mid\<rparr>) (materials st mid)"
proof (induction items arbitrary: st)
  case Nil
  show ?case by (simp add: restored_def option.map_ident)
next
  case (Cons it items)
  show ?case
    by (simp add: Cons.IH materials_inc_quantity restored_def option.map_comp comp_def add.assoc)
qed

lemma orders_restore_loop:
  "orders (foldl (\<lambda>s material. inc_quantity (oi_materialId material) (oi_quantity material) s)
       st items) = orders st"
  by (induction items arbitrary: st) (simp_all add: orders_inc_quantity)

text \<open>The parts of claim C2 that hold for one cancellation.\<close>

lemma cancelOrder_shipped_rejected:
  assumes "Order_findById st oid = Some order"
    and "u_role u = ''vendor'' \<and> o_vendorId order = u_id u
       \<or> u_role u = ''supplier'' \<and> list_ex (\<lambda>m. oi_supplierId m = u_id u) (o_items order)"
    and "o_status order = ''shipped'' \<or> o_status order = ''delivered''"
  shows "cancelOrder today st u oid = (Inl CannotCancel, st)"
  using assms by (auto simp: cancelOrder_def Let_def)

lemma cancelOrder_restores_stock:
  assumes "Order_findById st oid = Some order"
    and "u_role u = ''vendor'' \<and> o_vendorId order = u_id u
       \<or> u_role u = ''supplier'' \<and> list_ex (\<lambda>m. oi_supplierId m = u_id u) (o_items order)"
    and "o_status order \<in> set [''pending'', ''confirmed'', ''processing'']"
    and "order_valid order"
  shows "\<exists>saved. fst (cancelOrder today st u oid) = Inr saved
           \<and> o_status saved = ''cancelled''
           \<and> Order_findById (snd (cancelOrder today st u oid)) oid = Some saved
           \<and> materials (snd (cancelOrder today st u oid)) mid
               = map_option (\<lambda>m. m\<lparr>m_quantity := m_quantity m + restored (o_items order) mid\<rparr>)
                   (materials st mid)"
proof -
  from assms(4) have valid: "order_valid (order\<lparr>o_status := ''cancelled''\<rparr>)"
    by (simp add: order_valid_def statuses_def)
  from assms(4) have num: "o_orderNumber (order\<lparr>o_status := ''cancelled''\<rparr>) \<noteq> []"
    by (simp add: order_valid_def)
  from assms(1) have oid: "oid < length (orders st)"
    by (simp add: Order_findById_def split: if_splits)
  from assms(3) have open_: "o_status order \<notin> set [''shipped'', ''delivered'']"
    by auto
  show ?thesis
    using assms(1,2) open_ valid oid
    by (auto simp: cancelOrder_def Let_def order_save_def order_preSave_fields [OF num]
        Order_findById_def orders_restore_loop materials_restore_loop)
qed

text \<open>
  Claim C2 at the input where the code departs from it: the order of 20 kg of tomatoes,
  placed when the stock was 100, cancelled twice by its vendor. The first cancellation
  brings the stock from 80 back to 100. The guard only looks for shipped and delivered,
  so the second cancellation of the now cancelled order succeeds as well and brings the
  stock to 120. The model's own \<^verbatim>\<open>canBeCancelled\<close> says no.
\<close>

theorem cancelOrder_twice_restores_twice:
  "materials ex_placed_store 7 = Some (ex_tomato\<lparr>m_quantity := 80\<rparr>)
   \<and> fst (cancelOrder ex_clock ex_placed_store ex_user 0) = Inr ex_cancelled_order
   \<and> materials (snd (cancelOrder ex_clock ex_placed_store ex_user 0)) 7 = Some ex_tomato
   \<and> m_quantity ex_tomato = 100
   \<and> \<not> canBeCancelled ex_cancelled_order
   \<and> fst (cancelOrder ex_clock (snd (cancelOrder ex_clock ex_placed_store ex_user 0)) ex_user 0)
       = Inr ex_cancelled_order
   \<and> materials (snd (cancelOrder ex_clock
         (snd (cancelOrder ex_clock ex_placed_store ex_user 0)) ex_user 0)) 7
       = Some (ex_tomato\<lparr>m_quantity := 120\<rparr>)"
  using ex_order_cancelled ex_cancel_restores ex_cancel_again
  by (simp add: ex_placed_store_def ex_tomato_def canBeCancelled_def ex_cancelled_order_def)

section \<open>The tracking history\<close>

text \<open>Neither handler touches the history or the cancellation stamps.\<close>

lemma updateOrderStatus_keeps_tracking:
  assumes "fst (updateOrderStatus today st u oid req) = Inr ord"
  shows "oid < length (orders st) \<and> o_tracking ord = o_tracking (orders st ! oid)
       \<and> o_cancelledAt ord = o_cancelledAt (orders st ! oid)
       \<and> o_cancelledBy ord = o_cancelledBy (orders st ! oid)"
  using assms
  by (auto simp: updateOrderStatus_def Order_findById_def Let_def split: if_splits option.splits)

lemma order_preSave_keeps_tracking:
  "o_tracking (order_preSave today os isNew d) = o_tracking d
   \<and> o_cancelledAt (order_preSave today os isNew d) = o_cancelledAt d
   \<and> o_cancelledBy (order_preSave today os isNew d) = o_cancelledBy d"
  by (simp add: order_preSave_def Let_def)

lemma cancelOrder_keeps_tracking:
  assumes "fst (cancelOrder today st u oid) = Inr ord"
  shows "oid < length (orders st) \<and> o_tracking ord = o_tracking (orders st ! oid)
       \<and> o_cancelledAt ord = o_cancelledAt (orders st ! oid)
       \<and> o_cancelledBy ord = o_cancelledBy (orders st ! oid)"
  using assms
  by (auto simp: cancelOrder_def Order_findById_def Let_def order_save_def
        order_preSave_keeps_tracking split: if_splits option.splits)

text \<open>The model method does what the claim describes.\<close>

lemma updateStatus_appends:
  assumes "fst (updateStatus today st oid this newStatus updatedBy notes location) = Inr d"
  shows "o_status d = newStatus
       \<and> o_tracking d = o_tracking this @
            [\<lparr>t_status = newStatus, t_updatedAt = now today, t_updatedBy = updatedBy,
              t_notes = notes, t_location = location\<rparr>]
       \<and> (newStatus = ''cancelled'' \<longrightarrow>
            o_cancelledAt d = Some (now today) \<and> o_cancelledBy d = Some updatedBy)"
  using assms
  by (auto simp: updateStatus_def order_save_def Let_def order_preSave_keeps_tracking
        order_preSave_def split: if_splits)

text \<open>
  Claim C3 at the input where the code departs from it: the same order, confirmed by
  its supplier, and cancelled by its vendor. Both requests succeed and change the status;
  the tracking history stays empty and a cancelled order has no cancelledAt and no
  cancelledBy. The model's \<^verbatim>\<open>updateStatus\<close> writes all three, and no handler calls
  it.
\<close>

theorem status_change_leaves_tracking:
  "o_tracking ex_order = []
   \<and> fst (put_status ex_clock ex_placed_store ex_supplier 0 ex_confirm)
       = Inr (ex_order\<lparr>o_status := ''confirmed''\<rparr>)
   \<and> o_tracking (ex_order\<lparr>o_status := ''confirmed''\<rparr>) = []
   \<and> fst (cancelOrder ex_clock ex_placed_store ex_user 0) = Inr ex_cancelled_order
   \<and> o_status ex_cancelled_order = ''cancelled''
   \<and> o_tracking ex_cancelled_order = []
   \<and> o_cancelledAt ex_cancelled_order = None
   \<and> o_cancelledBy ex_cancelled_order = None"
  using ex_confirmed ex_order_cancelled
  by (simp add: ex_order_def ex_cancelled_order_def)

section \<open>Status updates by a supplier\<close>

lemma materials_updateOrderStatus:
  "materials (snd (updateOrderStatus today st u oid req)) = materials st"
  by (simp add: updateOrderStatus_def Let_def split: option.splits)

text \<open>
  Claim C10. The status update never changes a material. For a target status among
  pending, confirmed, processing, shipped, delivered and cancelled, a stored order and a
  supplier with a line in it, the update is accepted whatever the order's status was:
  the response and the stored order have the target status.
\<close>

theorem put_status_any_transition:
  "materials (snd (put_status today st u oid req)) = materials st
   \<and> (s_status req \<in> set validStatuses \<and> oid < length (orders st) \<and> u_role u = ''supplier''
        \<and> list_ex (\<lambda>m. oi_supplierId m = u_id u) (o_items (orders st ! oid))
      \<longrightarrow> (\<exists>ord. fst (put_status today st u oid req) = Inr ord
                 \<and> o_status ord = s_status req
                 \<and> Order_findById (snd (put_status today st u oid req)) oid = Some ord))"
proof -
  have frame: "materials (snd (put_status today st u oid req)) = materials st"
    by (simp add: put_status_def materials_updateOrderStatus)
  have "\<exists>ord. fst (put_status today st u oid req) = Inr ord
                 \<and> o_status ord = s_status req
                 \<and> Order_findById (snd (put_status today st u oid req)) oid = Some ord"
    if "s_status req \<in> set validStatuses \<and> oid < length (orders st) \<and> u_role u = ''supplier''
        \<and> list_ex (\<lambda>m. oi_supplierId m = u_id u) (o_items (orders st ! oid))"
    using that
    by (auto simp: put_status_def authorize_def updateOrderStatus_def Order_findById_def Let_def
          split: option.splits)
  with frame show ?thesis by blast
qed

theorem put_status_any_transition_witness:
  "s_status ex_to_cancelled \<in> set validStatuses \<and> 0 < length (orders ex_delivered_store)
     \<and> u_role ex_supplier = ''supplier''
     \<and> list_ex (\<lambda>m. oi_supplierId m = u_id ex_supplier) (o_items (orders ex_delivered_store ! 0))
   \<and> o_status (orders ex_delivered_store ! 0) = ''delivered''
   \<and> fst (put_status ex_clock ex_delivered_store ex_supplier 0 ex_to_cancelled)
       = Inr (ex_order\<lparr>o_status := ''cancelled''\<rparr>)
   \<and> materials (snd (put_status ex_clock ex_delivered_store ex_supplier 0 ex_to_cancelled))
       = materials ex_delivered_store
   \<and> materials ex_delivered_store 7 = Some (ex_tomato\<lparr>m_quantity := 80\<rparr>)"
proof -
  have pre: "s_status ex_to_cancelled \<in> set validStatuses \<and> 0 < length (orders ex_delivered_store)
     \<and> u_role ex_supplier = ''supplier''
     \<and> list_ex (\<lambda>m. oi_supplierId m = u_id ex_supplier) (o_items (orders ex_delivered_store ! 0))"
    by (simp add: ex_to_cancelled_def validStatuses_def ex_delivered_store_def ex_placed_store_def
        ex_supplier_def ex_order_def)
  have was: "o_status (orders ex_delivered_store ! 0) = ''delivered''"
    by (simp add: ex_delivered_store_def)
  have stock: "materials ex_delivered_store 7 = Some (ex_tomato\<lparr>m_quantity := 80\<rparr>)"
    by (simp add: ex_delivered_store_def ex_placed_store_def)
  from put_status_any_transition [of ex_clock ex_delivered_store ex_supplier 0 ex_to_cancelled] pre
  obtain ord where run: "fst (put_status ex_clock ex_delivered_store ex_supplier 0 ex_to_cancelled) = Inr ord"
    and st: "o_status ord = s_status ex_to_cancelled"
    and frame: "materials (snd (put_status ex_clock ex_delivered_store ex_supplier 0 ex_to_cancelled))
       = materials ex_delivered_store"
    by blast
  have resp: "fst (put_status ex_clock ex_delivered_store ex_supplier 0 ex_to_cancelled)
       = Inr (ex_order\<lparr>o_status := ''cancelled''\<rparr>)"
    by (simp add: status_eval order_eval ex_eval ex_order_def ex_placed_store_def
        ex_delivered_store_def ex_to_cancelled_def)
  from pre was resp frame stock show ?thesis
    by (intro conjI) blast+
qed

section \<open>Distances\<close>


lemma sin_square_le_1: "sin x * sin x \<le> (1 :: real)"
  using sin_cos_squared_add3 [of x] zero_le_square [of "cos x"] by linarith



text \<open>
  The square roots are taken of numbers between 0 and 1, whatever the coordinates.
\<close>

lemma haversine_a_range: "0 \<le> haversine_a lat1 lng1 lat2 lng2 \<and> haversine_a lat1 lng1 lat2 lng2 \<le> 1"
proof -
  define p where "p = lat1 * pi / 180"
  define q where "q = lat2 * pi / 180"
  define s where "s = sin ((lng2 - lng1) * pi / 180 / 2) * sin ((lng2 - lng1) * pi / 180 / 2)"
  define h where "h = sin ((q - p) / 2) * sin ((q - p) / 2)"
  have a: "haversine_a lat1 lng1 lat2 lng2 = h + cos p * cos q * s"
    by (simp add: haversine_a_def Let_def p_def q_def s_def h_def algebra_simps diff_divide_distrib)
  have s0: "0 \<le> s" and s1: "s \<le> 1"
    unfolding s_def by (simp_all add: sin_square_le_1)
  have h0: "0 \<le> h" unfolding h_def by simp
  have h1: "h \<le> 1"
    unfolding h_def by (rule sin_square_le_1)
  have cd: "cos (q - p) = 1 - 2 * h"
  proof -
    have "q - p = 2 * ((q - p) / 2)" by (simp add: field_simps)
    then have "cos (q - p) = cos (2 * ((q - p) / 2))" by (rule arg_cong)
    also have "\<dots> = 1 - 2 * (sin ((q - p) / 2))\<^sup>2" by (rule cos_double_sin)
    finally show ?thesis by (simp add: h_def power2_eq_square)
  qed
  have prod: "cos p * cos q = (cos (q - p) + cos (q + p)) / 2"
    by (simp add: cos_add cos_diff)
  have lo: "- h \<le> cos p * cos q"
  proof -
    have "- 1 \<le> cos (q + p)" by simp
    moreover have "X = (A + B) / 2 \<Longrightarrow> A = 1 - 2 * h \<Longrightarrow> - 1 \<le> B \<Longrightarrow> - h \<le> X"
      for X A B :: real by argo
    ultimately show ?thesis using prod cd by blast
  qed
  have hi: "cos p * cos q \<le> 1 - h"
  proof -
    have "cos (q + p) \<le> 1" by simp
    moreover have "X = (A + B) / 2 \<Longrightarrow> A = 1 - 2 * h \<Longrightarrow> B \<le> 1 \<Longrightarrow> X \<le> 1 - h"
      for X A B :: real by argo
    ultimately show ?thesis using prod cd by blast
  qed
  have "0 \<le> h + cos p * cos q * s"
  proof -
    have "- h * s \<le> cos p * cos q * s"
      using lo s0 by (intro mult_right_mono) simp_all
    moreover have "h * s \<le> h" using h0 s1 by (simp add: mult_left_le)
    ultimately show ?thesis by simp
  qed
  moreover have "h + cos p * cos q * s \<le> 1"
  proof -
    have "cos p * cos q * s \<le> (1 - h) * s"
      using hi s0 by (intro mult_right_mono) simp_all
    moreover have "(1 - h) * s \<le> 1 - h" using h1 s1 by (simp add: mult_left_le)
    ultimately show ?thesis by simp
  qed
  ultimately show ?thesis by (simp add: a)
qed



section \<open>Nearby suppliers\<close>
















end
